theory Spec2Isabelle
  imports Complex_Main "HOL-Library.Word"
begin

section \<open>JavaScript values\<close>

text \<open>
  A JavaScript string is a sequence of UTF-16 code units. \<open>js\<close> turns a literal of
  Latin-1 characters into its code units.
\<close>

type_synonym jsstring = "16 word list"

definition js :: "string \<Rightarrow> jsstring" where
  "js s = map (\<lambda>c. word_of_nat (of_char c)) s"

text \<open>
  Numbers are IEEE doubles; the pipeline only ever asks whether a number is truthy, so a
  finite double is carried by its rational value (negative zero is folded into zero, both
  are falsy) and the three non-finite values are constructors of their own.
\<close>

datatype jsnum = NaN | PosInf | NegInf | Finite rat

datatype jsval =
    JUndefined
  | JNull
  | JBool bool
  | JNum jsnum
  | JStr jsstring
  | JArr "jsval list"
  | JObj "(jsstring \<times> jsval) list"

text \<open>ToBoolean, as used by \<open>if (candidate)\<close>, \<open>parsed && ...\<close> and \<open>x || y\<close>.\<close>

fun truthy :: "jsval \<Rightarrow> bool" where
  "truthy JUndefined = False"
| "truthy JNull = False"
| "truthy (JBool b) = b"
| "truthy (JNum n) = (n \<noteq> NaN \<and> n \<noteq> Finite 0)"
| "truthy (JStr s) = (s \<noteq> [])"
| "truthy (JArr xs) = True"
| "truthy (JObj kvs) = True"

fun typeof :: "jsval \<Rightarrow> string" where
  "typeof JUndefined = ''undefined''"
| "typeof JNull = ''object''"
| "typeof (JBool b) = ''boolean''"
| "typeof (JNum n) = ''number''"
| "typeof (JStr s) = ''string''"
| "typeof (JArr xs) = ''object''"
| "typeof (JObj kvs) = ''object''"

text \<open>\<open>xs[i]\<close> on an array: reading past the end yields \<open>undefined\<close>, it does not raise.\<close>

definition array_get :: "jsval list \<Rightarrow> nat \<Rightarrow> jsval" where
  "array_get xs i = (if i < length xs then xs ! i else JUndefined)"

text \<open>
  \<open>obj[key]\<close> on a plain object: a missing property reads as \<open>undefined\<close>. An object is
  an association list of its own properties; the first binding of a key is the property.
\<close>

definition get_prop :: "(jsstring \<times> jsval) list \<Rightarrow> jsstring \<Rightarrow> jsval" where
  "get_prop kvs k = (case map_of kvs k of Some v \<Rightarrow> v | None \<Rightarrow> JUndefined)"

section \<open>Strings: trim and split\<close>

text \<open>The code units that \<open>String.prototype.trim\<close> strips: WhiteSpace and LineTerminator.\<close>

definition is_ws :: "16 word \<Rightarrow> bool" where
  "is_ws c \<longleftrightarrow>
     c \<in> {0x09, 0x0A, 0x0B, 0x0C, 0x0D, 0x20, 0xA0, 0x1680, 0x2028, 0x2029,
          0x202F, 0x205F, 0x3000, 0xFEFF}
     \<or> (0x2000 \<le> c \<and> c \<le> 0x200A)"

definition trim :: "jsstring \<Rightarrow> jsstring" where
  "trim s = rev (dropWhile is_ws (rev (dropWhile is_ws s)))"

text \<open>\<open>s.split(sep)\<close> for a separator of one code unit; the result is never empty.\<close>

fun str_split :: "16 word \<Rightarrow> jsstring \<Rightarrow> jsstring list" where
  "str_split sep [] = [[]]"
| "str_split sep (c # cs) =
     (if c = sep then [] # str_split sep cs
      else (case str_split sep cs of
              [] \<Rightarrow> [[c]]
            | l # ls \<Rightarrow> (c # l) # ls))"

section \<open>The schema: \<open>FeedbackSchema\<close>\<close>

text \<open>
  The validators of the schema library, as far as \<open>FeedbackSchema\<close> uses them. A
  validator returns the parsed value, or \<open>None\<close> where the library's \<open>parse\<close> throws
  its validation error. None of them coerces: each first checks the JavaScript type of
  its input.
\<close>

definition z_string :: "jsval \<Rightarrow> jsval option" where
  "z_string v = (case v of JStr s \<Rightarrow> Some (JStr s) | _ \<Rightarrow> None)"

definition z_boolean :: "jsval \<Rightarrow> jsval option" where
  "z_boolean v = (case v of JBool b \<Rightarrow> Some (JBool b) | _ \<Rightarrow> None)"

definition z_enum :: "jsstring list \<Rightarrow> jsval \<Rightarrow> jsval option" where
  "z_enum literals v =
     (case v of
        JStr s \<Rightarrow> if s \<in> set literals then Some (JStr s) else None
      | _ \<Rightarrow> None)"

definition z_array :: "(jsval \<Rightarrow> jsval option) \<Rightarrow> jsval \<Rightarrow> jsval option" where
  "z_array element v =
     (case v of
        JArr xs \<Rightarrow> map_option JArr (those (map element xs))
      | _ \<Rightarrow> None)"

text \<open>
  \<open>z.object(shape)\<close> in its default mode: the input must be a plain object; every key of
  the shape is read from it (a missing key reads as \<open>undefined\<close>) and validated; the
  result is a fresh object holding the keys of the shape, in the order of the shape, and
  nothing else. Every field of \<open>FeedbackSchema\<close> is required, so every key is set.
\<close>

definition z_object ::
  "(jsstring \<times> (jsval \<Rightarrow> jsval option)) list \<Rightarrow> jsval \<Rightarrow> jsval option" where
  "z_object shape v =
     (case v of
        JObj kvs \<Rightarrow>
          map_option JObj
            (those (map (\<lambda>(k, validator). map_option (Pair k) (validator (get_prop kvs k)))
                     shape))
      | _ \<Rightarrow> None)"

definition Atencion :: jsstring where
  "Atencion = js ''Atenci'' @ [0xF3] @ js ''n''"

definition polaridad_literals :: "jsstring list" where
  "polaridad_literals = [js ''Amor'', js ''Odio'']"

definition categoria_literals :: "jsstring list" where
  "categoria_literals = [Atencion, js ''App'', js ''Cajeros'']"

definition FeedbackSchema :: "(jsstring \<times> (jsval \<Rightarrow> jsval option)) list" where
  "FeedbackSchema =
     [(js ''entidad'', z_string),
      (js ''polaridad'', z_enum polaridad_literals),
      (js ''categoria'', z_array (z_enum categoria_literals)),
      (js ''urgencia'', z_boolean)]"

definition FeedbackSchema_parse :: "jsval \<Rightarrow> jsval option" where
  "FeedbackSchema_parse = z_object FeedbackSchema"

section \<open>The flow\<close>

record Input =
  systemInstruction :: jsstring
  textContent :: jsstring

datatype status = Success | Failure

record LineResult =
  originalText :: jsstring
  parsedResult :: jsval
  validationStatus :: status

record Output =
  rawResponse :: jsstring
  validatedResults :: "LineResult list"

text \<open>
  What a failing model call throws, as far as the \<open>catch\<close> block looks at it. The block
  reads \<open>error.message\<close>: on \<open>null\<close> and \<open>undefined\<close> (\<open>Nullish\<close>) that read raises a
  TypeError. Of any other thrown value, \<open>Thrown message converted\<close> carries what the read
  yields (\<open>undefined\<close> where the value has no such property) and what the conversion to
  a string makes of that value when the template literal has to convert it, \<open>None\<close>
  where the conversion itself raises (a TypeError, for a value without methods of its
  own).
\<close>

datatype thrown = Nullish | Thrown jsval "jsstring option"

text \<open>What the entry point itself raises when its \<open>catch\<close> block fails.\<close>

datatype js_error = TypeError

text \<open>
  What the flow takes from its environment: the two JSON built-ins and the prompt call.
  \<open>JSON_parse\<close> is \<open>None\<close> where \<open>JSON.parse\<close> throws; \<open>JSON_stringify v\<close> stands for
  \<open>JSON.stringify(v, null, 2)\<close> and is \<open>None\<close> where that returns \<open>undefined\<close>;
  \<open>extractFeedbackPrompt\<close> is the call of the prompt on the input, which either throws
  a value or resolves to the model's \<open>output\<close>, a value of any shape.
\<close>

record runtime =
  JSON_parse :: "jsstring \<Rightarrow> jsval option"
  JSON_stringify :: "jsval \<Rightarrow> jsstring option"
  extractFeedbackPrompt :: "Input \<Rightarrow> thrown + jsval"

text \<open>
  \<open>input.textContent.split('\n').filter(line => line.trim().length > 0)\<close>
\<close>

definition textLines :: "Input \<Rightarrow> jsstring list" where
  "textLines input =
     filter (\<lambda>line. length (trim line) > 0) (str_split 0x0A (textContent input))"

text \<open>
  \<open>typeof output === 'string' ? output : JSON.stringify(output, null, 2) || '[]'\<close>
\<close>

definition rawResponse_of :: "runtime \<Rightarrow> jsval \<Rightarrow> jsstring" where
  "rawResponse_of rt output =
     (case output of
        JStr s \<Rightarrow> s
      | _ \<Rightarrow> (case JSON_stringify rt output of
                Some s \<Rightarrow> if s \<noteq> [] then s else js ''[]''
              | None \<Rightarrow> js ''[]''))"

text \<open>
  The \<open>try\<close> block that recovers the candidates: a string output is parsed, any other
  output is taken as it is; an array gives its elements, any other truthy object gives
  a single candidate, everything else and a parse error give no candidate.
\<close>

definition jsonResults_of :: "runtime \<Rightarrow> jsval \<Rightarrow> jsval list" where
  "jsonResults_of rt output =
     (case (case output of JStr s \<Rightarrow> JSON_parse rt s | _ \<Rightarrow> Some output) of
        None \<Rightarrow> []
      | Some parsed \<Rightarrow>
          (case parsed of
             JArr xs \<Rightarrow> xs
           | _ \<Rightarrow> if truthy parsed \<and> typeof parsed = ''object'' then [parsed] else []))"

text \<open>
  The callback of \<open>textLines.map((line, index) => ...)\<close>, with the schema's \<open>parse\<close> as
  a parameter: the candidate at the line's index is validated only if it is truthy.
\<close>

definition validate_line ::
  "(jsval \<Rightarrow> jsval option) \<Rightarrow> jsval list \<Rightarrow> jsstring \<Rightarrow> nat \<Rightarrow> LineResult" where
  "validate_line parse jsonResults line index =
     (let candidate = array_get jsonResults index in
      if truthy candidate then
        (case parse candidate of
           Some parsed \<Rightarrow>
             \<lparr>originalText = line, parsedResult = parsed, validationStatus = Success\<rparr>
         | None \<Rightarrow>
             \<lparr>originalText = line, parsedResult = JNull, validationStatus = Failure\<rparr>)
      else \<lparr>originalText = line, parsedResult = JNull, validationStatus = Failure\<rparr>)"

definition validatedResults_of ::
  "(jsval \<Rightarrow> jsval option) \<Rightarrow> jsstring list \<Rightarrow> jsval list \<Rightarrow> LineResult list" where
  "validatedResults_of parse lines jsonResults =
     map (\<lambda>(index, line). validate_line parse jsonResults line index) (enumerate 0 lines)"

definition extractAndValidateFeedbackFlow :: "runtime \<Rightarrow> Input \<Rightarrow> thrown + Output" where
  "extractAndValidateFeedbackFlow rt input =
     (case extractFeedbackPrompt rt input of
        Inl error \<Rightarrow> Inl error
      | Inr output \<Rightarrow>
          Inr \<lparr>rawResponse = rawResponse_of rt output,
               validatedResults =
                 validatedResults_of FeedbackSchema_parse (textLines input)
                   (jsonResults_of rt output)\<rparr>)"

text \<open>
  The exported wrapper: whatever the flow throws is caught, and the \<open>catch\<close> block builds
  an output whose lines all fail. Its raw response is a template literal, the
  diagnostic prefix followed by \<open>error.message || '...'\<close>: reading \<open>error.message\<close>
  raises on a nullish \<open>error\<close>; \<open>||\<close> takes the default text when the message is
  falsy; the template inserts a string as it is and converts any other value. What the
  block raises leaves the entry point.
\<close>

definition failure_line :: "jsstring \<Rightarrow> LineResult" where
  "failure_line line =
     \<lparr>originalText = line, parsedResult = JNull, validationStatus = Failure\<rparr>"

definition error_prefix :: jsstring where
  "error_prefix = js ''Error en la evaluaci'' @ [0xF3] @ js ''n: ''"

definition error_default :: jsstring where
  "error_default = js ''Error desconocido del motor de IA''"

definition error_text :: "thrown \<Rightarrow> js_error + jsstring" where
  "error_text error =
     (case error of
        Nullish \<Rightarrow> Inl TypeError
      | Thrown message converted \<Rightarrow>
          if truthy message then
            (case message of
               JStr m \<Rightarrow> Inr m
             | _ \<Rightarrow> (case converted of Some m \<Rightarrow> Inr m | None \<Rightarrow> Inl TypeError))
          else Inr error_default)"

definition extractAndValidateFeedback :: "runtime \<Rightarrow> Input \<Rightarrow> js_error + Output" where
  "extractAndValidateFeedback rt input =
     (case extractAndValidateFeedbackFlow rt input of
        Inr out \<Rightarrow> Inr out
      | Inl error \<Rightarrow>
          (case error_text error of
             Inl raised \<Rightarrow> Inl raised
           | Inr description \<Rightarrow>
               Inr \<lparr>rawResponse = error_prefix @ description,
                    validatedResults = map failure_line (textLines input)\<rparr>))"

text \<open>
  The caller in the dashboard, \<open>runEvaluation\<close>: nothing is run on an instruction that is
  blank or without a file; otherwise the entry point gets the trimmed instruction and
  the file's content as it is. The result is the output it stores, with the score and
  the total it derives from it; a call that raises is caught and stores nothing.
\<close>

definition runEvaluation ::
  "runtime \<Rightarrow> jsstring \<Rightarrow> jsstring option \<Rightarrow> (Output \<times> nat \<times> nat) option" where
  "runEvaluation rt instruction fileContent =
     (case fileContent of
        None \<Rightarrow> None
      | Some content \<Rightarrow>
          if trim instruction = [] \<or> content = [] then None
          else
            (case extractAndValidateFeedback rt
                    \<lparr>systemInstruction = trim instruction, textContent = content\<rparr> of
               Inl raised \<Rightarrow> None
             | Inr out \<Rightarrow>
                 Some (out,
                       length (filter (\<lambda>r. validationStatus r = Success) (validatedResults out)),
                       length (validatedResults out))))"

section \<open>The schema as the specification words it\<close>

text \<open>
  The four field constraints in the words of the specification, each a predicate on the
  value read from the candidate; \<open>field\<close> reads a property of a candidate of any shape
  (a candidate that is not an object has none of the four).
\<close>

definition field :: "jsval \<Rightarrow> jsstring \<Rightarrow> jsval" where
  "field v k = (case v of JObj kvs \<Rightarrow> get_prop kvs k | _ \<Rightarrow> JUndefined)"

definition spec_entidad_ok :: "jsval \<Rightarrow> bool" where
  "spec_entidad_ok v = (case v of JStr s \<Rightarrow> True | _ \<Rightarrow> False)"

definition spec_polaridad_ok :: "jsval \<Rightarrow> bool" where
  "spec_polaridad_ok v \<longleftrightarrow> v = JStr (js ''Amor'') \<or> v = JStr (js ''Odio'')"

definition spec_categoria_ok :: "jsval \<Rightarrow> bool" where
  "spec_categoria_ok v =
     (case v of
        JArr xs \<Rightarrow>
          list_all (\<lambda>x. x = JStr Atencion \<or> x = JStr (js ''App'') \<or> x = JStr (js ''Cajeros'')) xs
      | _ \<Rightarrow> False)"

definition spec_urgencia_ok :: "jsval \<Rightarrow> bool" where
  "spec_urgencia_ok v \<longleftrightarrow> v = JBool True \<or> v = JBool False"

definition spec_valid :: "jsval \<Rightarrow> bool" where
  "spec_valid c \<longleftrightarrow>
     spec_polaridad_ok (field c (js ''polaridad''))
     \<and> spec_categoria_ok (field c (js ''categoria''))
     \<and> spec_urgencia_ok (field c (js ''urgencia''))
     \<and> spec_entidad_ok (field c (js ''entidad''))"

text \<open>The object \<open>FeedbackSchema.parse\<close> builds from an accepted object.\<close>

definition stripped :: "(jsstring \<times> jsval) list \<Rightarrow> jsval" where
  "stripped kvs =
     JObj [(js ''entidad'', get_prop kvs (js ''entidad'')),
           (js ''polaridad'', get_prop kvs (js ''polaridad'')),
           (js ''categoria'', get_prop kvs (js ''categoria'')),
           (js ''urgencia'', get_prop kvs (js ''urgencia''))]"

text \<open>
  Strategy 3 of the specification's Response Parser, in its words: the raw text is split
  into lines, each line is parsed on its own, and a line that fails to parse is recorded
  as absent at its position.
\<close>

definition spec_parse_lines :: "(jsstring \<Rightarrow> jsval option) \<Rightarrow> jsstring \<Rightarrow> jsval list" where
  "spec_parse_lines parse raw =
     map (\<lambda>line. case parse line of Some v \<Rightarrow> v | None \<Rightarrow> JUndefined) (str_split 0x0A raw)"

section \<open>An environment for the examples\<close>

text \<open>
  The examples below run the flow on a scripted environment. \<open>example_parse\<close> gives
  the value of \<open>JSON.parse\<close> at the texts the examples parse: the array of two records,
  each record alone, and, as a syntax error, everything else the examples use (the text
  \<open>not json\<close> and the two records separated by a line break).
\<close>

definition record_App :: jsval where
  "record_App =
     JObj [(js ''entidad'', JStr (js ''App'')),
           (js ''polaridad'', JStr (js ''Amor'')),
           (js ''categoria'', JArr [JStr (js ''App'')]),
           (js ''urgencia'', JBool False)]"

definition record_Cajero :: jsval where
  "record_Cajero =
     JObj [(js ''entidad'', JStr (js ''Cajero'')),
           (js ''polaridad'', JStr (js ''Odio'')),
           (js ''categoria'', JArr [JStr Atencion]),
           (js ''urgencia'', JBool True)]"

definition text_App :: jsstring where
  \<open>text_App = js ''{"entidad":"App","polaridad":"Amor","categoria":["App"],"urgencia":false}''\<close>

definition text_Cajero :: jsstring where
  \<open>text_Cajero =
     js ''{"entidad":"Cajero","polaridad":"Odio","categoria":["Atenci'' @ [0xF3]
     @ js ''n"],"urgencia":true}''\<close>

definition text_array :: jsstring where
  "text_array = js ''['' @ text_App @ js '','' @ text_Cajero @ js '']''"

definition text_two_lines :: jsstring where
  "text_two_lines = text_App @ [0x0A] @ text_Cajero"

definition example_parse :: "jsstring \<Rightarrow> jsval option" where
  "example_parse s =
     (if s = text_array then Some (JArr [record_App, record_Cajero])
      else if s = text_App then Some record_App
      else if s = text_Cajero then Some record_Cajero
      else None)"

text \<open>
  \<open>JSON.stringify\<close> returns \<open>undefined\<close> on \<open>undefined\<close> and the text \<open>null\<close> on
  \<open>null\<close>; the examples serialise nothing else.
\<close>

definition example_stringify :: "jsval \<Rightarrow> jsstring option" where
  "example_stringify v = (if v = JNull then Some (js ''null'') else None)"

text \<open>A model that answers every request with the same output, and one that fails.\<close>

definition answering :: "jsval \<Rightarrow> runtime" where
  "answering output =
     \<lparr>JSON_parse = example_parse, JSON_stringify = example_stringify,
      extractFeedbackPrompt = (\<lambda>input. Inr output)\<rparr>"

definition failing :: "thrown \<Rightarrow> runtime" where
  "failing error =
     \<lparr>JSON_parse = example_parse, JSON_stringify = example_stringify,
      extractFeedbackPrompt = (\<lambda>input. Inl error)\<rparr>"

text \<open>A model that answers with the text content it was given.\<close>

definition echoing :: runtime where
  "echoing =
     \<lparr>JSON_parse = example_parse, JSON_stringify = example_stringify,
      extractFeedbackPrompt = (\<lambda>input. Inr (JStr (textContent input)))\<rparr>"

definition two_lines :: Input where
  "two_lines =
     \<lparr>systemInstruction = js ''Extrae los campos'',
      textContent = js ''Great app'' @ [0x0A] @ js ''Rude teller''\<rparr>"

definition three_lines :: Input where
  "three_lines =
     \<lparr>systemInstruction = js ''Extrae los campos'',
      textContent = js ''Great app'' @ [0x0A, 0x0A] @ js ''Rude teller'' @ [0x0A]
        @ js ''  '' @ [0x0A] @ js ''Slow ATM'' @ [0x0A]\<rparr>"

definition two_lines_blank :: Input where
  "two_lines_blank =
     \<lparr>systemInstruction = js ''Extrae los campos'',
      textContent = js ''Great app'' @ [0x0A, 0x0A] @ js ''Rude teller''\<rparr>"

text \<open>Records that break one field each, and one with a field the schema does not know.\<close>

definition record_Indiferente :: jsval where
  "record_Indiferente =
     JObj [(js ''entidad'', JStr (js ''Cajero'')),
           (js ''polaridad'', JStr (js ''Indiferente'')),
           (js ''categoria'', JArr [JStr Atencion]),
           (js ''urgencia'', JBool True)]"

definition record_urgencia_text :: jsval where
  "record_urgencia_text =
     JObj [(js ''entidad'', JStr (js ''Cajero'')),
           (js ''polaridad'', JStr (js ''Odio'')),
           (js ''categoria'', JArr [JStr Atencion]),
           (js ''urgencia'', JStr (js ''true''))]"

definition record_App_extra :: jsval where
  "record_App_extra =
     JObj [(js ''entidad'', JStr (js ''App'')),
           (js ''polaridad'', JStr (js ''Amor'')),
           (js ''confianza'', JNum (Finite 1)),
           (js ''categoria'', JArr [JStr (js ''App'')]),
           (js ''urgencia'', JBool False)]"

text \<open>
  A model that answers with the array of two records when the text content is that of
  \<open>two_lines\<close>, and fails on any other.
\<close>

definition selective :: runtime where
  "selective =
     \<lparr>JSON_parse = example_parse, JSON_stringify = example_stringify,
      extractFeedbackPrompt =
        (\<lambda>input. if textContent input = textContent two_lines then Inr (JStr text_array)
                  else Inl Nullish)\<rparr>"

section \<open>The earlier revision of the flow\<close>

text \<open>
  The repository also holds an earlier revision of the flow (no wrapper, a prompt whose
  output is a string). It splits the text content without dropping blank lines,
  validates while it parses, and, when the response is not a JSON array, parses each
  line of the \<^emph>\<open>text content\<close> instead. A result is a Success when its validated
  record is truthy.
\<close>

definition legacy_validate :: "jsval \<Rightarrow> jsval" where
  "legacy_validate item = (case FeedbackSchema_parse item of Some r \<Rightarrow> r | None \<Rightarrow> JNull)"

definition legacy_jsonResults :: "runtime \<Rightarrow> jsstring \<Rightarrow> jsstring list \<Rightarrow> jsval list" where
  "legacy_jsonResults rt raw lines =
     (case JSON_parse rt raw of
        Some (JArr items) \<Rightarrow> map legacy_validate items
      | _ \<Rightarrow>
          map (\<lambda>line. case JSON_parse rt line of
                        Some parsed \<Rightarrow> legacy_validate parsed
                      | None \<Rightarrow> JNull)
            lines)"

definition legacy_validatedResults :: "runtime \<Rightarrow> jsstring \<Rightarrow> jsstring \<Rightarrow> LineResult list" where
  "legacy_validatedResults rt raw content =
     (let lines = str_split 0x0A content;
          jsonResults = legacy_jsonResults rt raw lines
      in map (\<lambda>(index, line).
                let parsedResult =
                      (if truthy (array_get jsonResults index) then array_get jsonResults index
                       else JNull)
                in \<lparr>originalText = line, parsedResult = parsedResult,
                    validationStatus = (if truthy parsedResult then Success else Failure)\<rparr>)
           (enumerate 0 lines))"

section \<open>Lines and results\<close>

lemma js_Nil [simp]: "js [] = []"
  by (simp add: js_def)

lemma js_eq_Nil [simp]: "js s = [] \<longleftrightarrow> s = []"
  by (simp add: js_def)

lemma originalText_validate_line [simp]:
  "originalText (validate_line parse cands line i) = line"
  by (simp add: validate_line_def Let_def split: option.split)

lemma length_validatedResults_of [simp]:
  "length (validatedResults_of parse lines cands) = length lines"
  by (simp add: validatedResults_of_def)

lemma validatedResults_of_nth:
  "i < length lines \<Longrightarrow>
   validatedResults_of parse lines cands ! i = validate_line parse cands (lines ! i) i"
  by (simp add: validatedResults_of_def nth_enumerate_eq)

lemma originalText_validatedResults_of [simp]:
  "map originalText (validatedResults_of parse lines cands) = lines"
  by (rule nth_equalityI) (simp_all add: validatedResults_of_nth)

lemma array_get_take:
  "i < n \<Longrightarrow> array_get (take n xs) i = array_get xs i"
  by (simp add: array_get_def)

lemma validatedResults_of_take:
  "validatedResults_of parse lines (take (length lines) cands) =
   validatedResults_of parse lines cands"
  by (rule nth_equalityI)
     (simp_all add: validatedResults_of_nth validate_line_def array_get_take)

lemma entry_resolved:
  "extractFeedbackPrompt rt input = Inr response \<Longrightarrow>
   extractAndValidateFeedback rt input =
     Inr \<lparr>rawResponse = rawResponse_of rt response,
          validatedResults =
            validatedResults_of FeedbackSchema_parse (textLines input)
              (jsonResults_of rt response)\<rparr>"
  by (simp add: extractAndValidateFeedback_def extractAndValidateFeedbackFlow_def)

lemma entry_thrown:
  "extractFeedbackPrompt rt input = Inl error \<Longrightarrow>
   extractAndValidateFeedback rt input =
     (case error_text error of
        Inl raised \<Rightarrow> Inl raised
      | Inr description \<Rightarrow>
          Inr \<lparr>rawResponse = error_prefix @ description,
               validatedResults = map failure_line (textLines input)\<rparr>)"
  by (simp add: extractAndValidateFeedback_def extractAndValidateFeedbackFlow_def)

lemma entry_returned:
  assumes "extractAndValidateFeedback rt input = Inr out"
  shows "validatedResults out =
      (case extractFeedbackPrompt rt input of
         Inl error \<Rightarrow> map failure_line (textLines input)
       | Inr response \<Rightarrow>
           validatedResults_of FeedbackSchema_parse (textLines input)
             (jsonResults_of rt response))"
proof (cases "extractFeedbackPrompt rt input")
  case (Inl error)
  with assms show ?thesis
    by (cases "error_text error") (auto simp: entry_thrown)
next
  case (Inr response)
  with assms show ?thesis
    by (auto simp: entry_resolved)
qed

text \<open>
  C1. When the model call resolves, the entry point returns. Whatever output the entry
  point returns, on the normal or on the fault path, has one result per non-blank line
  of the text content (a line of \<open>split('\n')\<close> whose trim is not empty), the i-th
  result carrying the i-th such line; the results are those of the first N candidates,
  so the candidates from position N on play no part, and a failing call gives N
  failures.
\<close>

theorem C1_alignment:
  "(extractFeedbackPrompt rt input = Inr response \<longrightarrow>
      (\<exists>returned. extractAndValidateFeedback rt input = Inr returned))
   \<and> (extractAndValidateFeedback rt input = Inr out \<longrightarrow>
        length (validatedResults out) =
          length (filter (\<lambda>line. trim line \<noteq> []) (str_split 0x0A (textContent input)))
        \<and> map originalText (validatedResults out) =
            filter (\<lambda>line. trim line \<noteq> []) (str_split 0x0A (textContent input))
        \<and> validatedResults out =
            (case extractFeedbackPrompt rt input of
               Inl error \<Rightarrow> map failure_line (textLines input)
             | Inr given \<Rightarrow>
                 validatedResults_of FeedbackSchema_parse (textLines input)
                   (take (length (textLines input)) (jsonResults_of rt given))))"
proof (intro conjI impI)
  assume "extractFeedbackPrompt rt input = Inr response"
  then show "\<exists>returned. extractAndValidateFeedback rt input = Inr returned"
    by (simp add: entry_resolved)
next
  assume ret: "extractAndValidateFeedback rt input = Inr out"
  have lines: "filter (\<lambda>line. trim line \<noteq> []) (str_split 0x0A (textContent input)) =
      textLines input"
    by (simp add: textLines_def)
  have results: "validatedResults out =
      (case extractFeedbackPrompt rt input of
         Inl error \<Rightarrow> map failure_line (textLines input)
       | Inr given \<Rightarrow>
           validatedResults_of FeedbackSchema_parse (textLines input)
             (take (length (textLines input)) (jsonResults_of rt given)))"
    using entry_returned [OF ret] by (simp add: validatedResults_of_take split: sum.split)
  show "length (validatedResults out) =
      length (filter (\<lambda>line. trim line \<noteq> []) (str_split 0x0A (textContent input)))"
    unfolding lines results by (simp split: sum.split)
  show "map originalText (validatedResults out) =
      filter (\<lambda>line. trim line \<noteq> []) (str_split 0x0A (textContent input))"
    unfolding lines results by (simp add: failure_line_def comp_def split: sum.split)
  show "validatedResults out =
      (case extractFeedbackPrompt rt input of
         Inl error \<Rightarrow> map failure_line (textLines input)
       | Inr given \<Rightarrow>
           validatedResults_of FeedbackSchema_parse (textLines input)
             (take (length (textLines input)) (jsonResults_of rt given)))"
    by (rule results)
qed

text \<open>
  Two candidates for three non-blank lines (with blank lines between them), and the same
  two candidates for a single line.
\<close>

lemma results_array_three:
  "extractAndValidateFeedback (answering (JStr text_array)) three_lines =
     Inr \<lparr>rawResponse = text_array,
          validatedResults =
            [\<lparr>originalText = js ''Great app'', parsedResult = record_App,
                validationStatus = Success\<rparr>,
             \<lparr>originalText = js ''Rude teller'', parsedResult = record_Cajero,
                validationStatus = Success\<rparr>,
             \<lparr>originalText = js ''Slow ATM'', parsedResult = JNull,
                validationStatus = Failure\<rparr>]\<rparr>"
  by (simp add: answering_def example_parse_def text_array_def text_two_lines_def text_App_def
      text_Cajero_def record_App_def record_Cajero_def three_lines_def Atencion_def js_def
      extractAndValidateFeedback_def extractAndValidateFeedbackFlow_def rawResponse_of_def
      jsonResults_of_def validatedResults_of_def validate_line_def array_get_def textLines_def
      trim_def is_ws_def FeedbackSchema_parse_def FeedbackSchema_def z_object_def z_string_def
      z_boolean_def z_enum_def z_array_def get_prop_def polaridad_literals_def
      categoria_literals_def enumerate_eq_zip upt_rec)

lemma results_array_one:
  "extractAndValidateFeedback (answering (JStr text_array))
       \<lparr>systemInstruction = [], textContent = js ''Slow ATM''\<rparr> =
     Inr \<lparr>rawResponse = text_array,
          validatedResults =
            [\<lparr>originalText = js ''Slow ATM'', parsedResult = record_App,
                validationStatus = Success\<rparr>]\<rparr>"
  by (simp add: answering_def example_parse_def text_array_def text_two_lines_def text_App_def
      text_Cajero_def record_App_def record_Cajero_def Atencion_def js_def
      extractAndValidateFeedback_def extractAndValidateFeedbackFlow_def rawResponse_of_def
      jsonResults_of_def validatedResults_of_def validate_line_def array_get_def textLines_def
      trim_def is_ws_def FeedbackSchema_parse_def FeedbackSchema_def z_object_def z_string_def
      z_boolean_def z_enum_def z_array_def get_prop_def polaridad_literals_def
      categoria_literals_def enumerate_eq_zip upt_rec)

theorem C1_alignment_witness:
  "extractFeedbackPrompt (answering (JStr text_array)) three_lines = Inr (JStr text_array)
   \<and> length (jsonResults_of (answering (JStr text_array)) (JStr text_array)) = 2
   \<and> extractAndValidateFeedback (answering (JStr text_array)) three_lines =
       Inr \<lparr>rawResponse = text_array,
            validatedResults =
              [\<lparr>originalText = js ''Great app'', parsedResult = record_App,
                  validationStatus = Success\<rparr>,
               \<lparr>originalText = js ''Rude teller'', parsedResult = record_Cajero,
                  validationStatus = Success\<rparr>,
               \<lparr>originalText = js ''Slow ATM'', parsedResult = JNull,
                  validationStatus = Failure\<rparr>]\<rparr>
   \<and> filter (\<lambda>line. trim line \<noteq> []) (str_split 0x0A (textContent three_lines)) =
       [js ''Great app'', js ''Rude teller'', js ''Slow ATM'']
   \<and> extractAndValidateFeedback (answering (JStr text_array))
         \<lparr>systemInstruction = [], textContent = js ''Slow ATM''\<rparr> =
       Inr \<lparr>rawResponse = text_array,
            validatedResults =
              [\<lparr>originalText = js ''Slow ATM'', parsedResult = record_App,
                  validationStatus = Success\<rparr>]\<rparr>"
proof -
  let ?rt = "answering (JStr text_array)"
  let ?one = "\<lparr>systemInstruction = [], textContent = js ''Slow ATM''\<rparr>"
  let ?out3 = "\<lparr>rawResponse = text_array,
      validatedResults =
        [\<lparr>originalText = js ''Great app'', parsedResult = record_App,
            validationStatus = Success\<rparr>,
         \<lparr>originalText = js ''Rude teller'', parsedResult = record_Cajero,
            validationStatus = Success\<rparr>,
         \<lparr>originalText = js ''Slow ATM'', parsedResult = JNull,
            validationStatus = Failure\<rparr>]\<rparr>"
  have resolved: "extractFeedbackPrompt ?rt three_lines = Inr (JStr text_array)"
    by (simp add: answering_def)
  have cands: "length (jsonResults_of ?rt (JStr text_array)) = 2"
    by (simp add: jsonResults_of_def answering_def example_parse_def)
  from C1_alignment [of ?rt three_lines "JStr text_array" ?out3] results_array_three
  have "map originalText (validatedResults ?out3) =
      filter (\<lambda>line. trim line \<noteq> []) (str_split 0x0A (textContent three_lines))"
    by blast
  then have three: "filter (\<lambda>line. trim line \<noteq> []) (str_split 0x0A (textContent three_lines)) =
      [js ''Great app'', js ''Rude teller'', js ''Slow ATM'']"
    by simp
  from resolved cands results_array_three three results_array_one show ?thesis
    by (intro conjI)
qed

section \<open>What the schema accepts\<close>

lemmas example_defs =
  answering_def failing_def echoing_def example_parse_def example_stringify_def
  text_array_def text_two_lines_def text_App_def text_Cajero_def record_App_def
  record_Cajero_def two_lines_def three_lines_def two_lines_blank_def
  record_Indiferente_def record_urgencia_text_def record_App_extra_def Atencion_def js_def

lemmas flow_defs =
  extractAndValidateFeedback_def extractAndValidateFeedbackFlow_def rawResponse_of_def
  jsonResults_of_def validatedResults_of_def validate_line_def array_get_def textLines_def
  trim_def is_ws_def failure_line_def error_prefix_def error_default_def error_text_def

lemmas schema_defs =
  FeedbackSchema_parse_def FeedbackSchema_def z_object_def z_string_def z_boolean_def
  z_enum_def z_array_def get_prop_def polaridad_literals_def categoria_literals_def

lemma z_string_eq:
  "z_string v = (if (\<exists>s. v = JStr s) then Some v else None)"
  by (auto simp: z_string_def split: jsval.splits)

lemma z_boolean_eq:
  "z_boolean v = (if (\<exists>b. v = JBool b) then Some v else None)"
  by (auto simp: z_boolean_def split: jsval.splits)

lemma z_enum_eq:
  "z_enum literals v = (if (\<exists>s. v = JStr s \<and> s \<in> set literals) then Some v else None)"
  by (auto simp: z_enum_def split: jsval.splits)

lemma those_map_filter:
  "those (map (\<lambda>x. if P x then Some x else None) xs) =
     (if (\<forall>x\<in>set xs. P x) then Some xs else None)"
  by (induction xs) auto

lemma z_array_enum_eq:
  "z_array (z_enum literals) v =
     (if (\<exists>xs. v = JArr xs \<and> (\<forall>x\<in>set xs. \<exists>s. x = JStr s \<and> s \<in> set literals))
      then Some v else None)"
proof -
  have fn: "z_enum literals =
      (\<lambda>x. if (\<exists>s. x = JStr s \<and> s \<in> set literals) then Some x else None)"
    by (rule ext) (rule z_enum_eq)
  show ?thesis
    unfolding fn by (cases v) (simp_all add: z_array_def those_map_filter)
qed

lemma FeedbackSchema_parse_JObj:
  "FeedbackSchema_parse (JObj kvs) =
     (if (\<exists>s. get_prop kvs (js ''entidad'') = JStr s)
         \<and> (\<exists>p. get_prop kvs (js ''polaridad'') = JStr p \<and> p \<in> set polaridad_literals)
         \<and> (\<exists>cs. get_prop kvs (js ''categoria'') = JArr cs
               \<and> (\<forall>c\<in>set cs. \<exists>t. c = JStr t \<and> t \<in> set categoria_literals))
         \<and> (\<exists>b. get_prop kvs (js ''urgencia'') = JBool b)
      then Some (stripped kvs)
      else None)"
  unfolding FeedbackSchema_parse_def z_object_def FeedbackSchema_def stripped_def
  by (simp add: z_string_eq z_boolean_eq z_enum_eq z_array_enum_eq)

lemma FeedbackSchema_parse_object:
  "FeedbackSchema_parse v = Some r \<Longrightarrow> \<exists>kvs. v = JObj kvs \<and> r = stripped kvs"
  by (cases v) (auto simp: FeedbackSchema_parse_JObj split: if_splits,
      auto simp: FeedbackSchema_parse_def z_object_def)

lemma spec_entidad_ok_iff: "spec_entidad_ok v \<longleftrightarrow> (\<exists>s. v = JStr s)"
  by (cases v) (simp_all add: spec_entidad_ok_def)

lemma spec_polaridad_ok_iff:
  "spec_polaridad_ok v \<longleftrightarrow> (\<exists>p. v = JStr p \<and> p \<in> set polaridad_literals)"
  by (auto simp: spec_polaridad_ok_def polaridad_literals_def)

lemma spec_categoria_ok_iff:
  "spec_categoria_ok v \<longleftrightarrow>
     (\<exists>cs. v = JArr cs \<and> (\<forall>c\<in>set cs. \<exists>t. c = JStr t \<and> t \<in> set categoria_literals))"
  by (cases v) (auto simp: spec_categoria_ok_def categoria_literals_def list_all_iff)

lemma spec_urgencia_ok_iff: "spec_urgencia_ok v \<longleftrightarrow> (\<exists>b. v = JBool b)"
  by (cases v) (auto simp: spec_urgencia_ok_def)

lemma FeedbackSchema_parse_accepts:
  "FeedbackSchema_parse c \<noteq> None \<longleftrightarrow> spec_valid c"
proof (cases c)
  case (JObj kvs)
  then show ?thesis
    by (simp add: FeedbackSchema_parse_JObj spec_valid_def field_def spec_entidad_ok_iff
        spec_polaridad_ok_iff spec_categoria_ok_iff spec_urgencia_ok_iff conj_ac)
qed (simp_all add: FeedbackSchema_parse_def z_object_def spec_valid_def field_def
      spec_entidad_ok_def)

lemma spec_valid_truthy: "spec_valid c \<Longrightarrow> truthy c"
  by (cases c) (simp_all add: spec_valid_def field_def spec_entidad_ok_def)

lemma get_prop_stripped:
  "k \<in> {js ''entidad'', js ''polaridad'', js ''categoria'', js ''urgencia''} \<Longrightarrow>
   (case stripped kvs of JObj kvs' \<Rightarrow> get_prop kvs' k | _ \<Rightarrow> JUndefined) = get_prop kvs k"
  by (auto simp: stripped_def get_prop_def js_def)

lemma FeedbackSchema_parse_idem:
  assumes "FeedbackSchema_parse c = Some r"
  shows "FeedbackSchema_parse r = Some r"
proof -
  from assms obtain kvs where c: "c = JObj kvs" and r: "r = stripped kvs"
    by (auto dest: FeedbackSchema_parse_object)
  obtain kvs' where kvs': "stripped kvs = JObj kvs'"
    by (simp add: stripped_def)
  have same: "get_prop kvs' k = get_prop kvs k"
    if "k \<in> {js ''entidad'', js ''polaridad'', js ''categoria'', js ''urgencia''}" for k
    using get_prop_stripped [OF that, of kvs] by (simp add: kvs')
  have "stripped kvs' = stripped kvs"
    by (simp add: stripped_def same)
  moreover from assms c have "FeedbackSchema_parse (JObj kvs) \<noteq> None"
    by simp
  ultimately show ?thesis
    unfolding r kvs'
    by (simp add: FeedbackSchema_parse_JObj same split: if_splits)
qed

lemma FeedbackSchema_parse_not_null:
  "FeedbackSchema_parse c = Some r \<Longrightarrow> r \<noteq> JNull"
  by (auto dest: FeedbackSchema_parse_object simp: stripped_def)

lemma validate_line_cases:
  "(\<exists>r. FeedbackSchema_parse (array_get cands i) = Some r
        \<and> validate_line FeedbackSchema_parse cands line i =
            \<lparr>originalText = line, parsedResult = r, validationStatus = Success\<rparr>)
   \<or> validate_line FeedbackSchema_parse cands line i = failure_line line"
  by (cases "FeedbackSchema_parse (array_get cands i)")
     (simp_all add: validate_line_def Let_def failure_line_def)

lemma validatedResults_of_mem:
  "r \<in> set (validatedResults_of parse lines cands) \<Longrightarrow>
   \<exists>line i. r = validate_line parse cands line i"
  by (auto simp: validatedResults_of_def)

lemma error_prefix_not_Nil [simp]: "error_prefix \<noteq> []"
  by (simp add: error_prefix_def)

section \<open>The fault path\<close>

text \<open>
  A thrown value other than \<open>null\<close> and \<open>undefined\<close>, whose message is a string or falsy
  or can be converted, is contained: the entry point returns the diagnostic prefix
  followed by the description (the message itself when it is a non-empty string, the
  default text when it is falsy), never an empty text, and one Failure with a null
  record per non-blank line.
\<close>

lemma thrown_value_contained:
  assumes "extractFeedbackPrompt rt input = Inl (Thrown message converted)"
    and "error_text (Thrown message converted) = Inr description"
  shows "extractAndValidateFeedback rt input =
      Inr \<lparr>rawResponse = error_prefix @ description,
           validatedResults =
             map (\<lambda>line. \<lparr>originalText = line, parsedResult = JNull,
                            validationStatus = Failure\<rparr>)
               (filter (\<lambda>line. trim line \<noteq> []) (str_split 0x0A (textContent input)))\<rparr>"
    and "error_prefix @ description \<noteq> []"
    and "message = JStr m \<Longrightarrow> m \<noteq> [] \<Longrightarrow> description = m"
    and "\<not> truthy message \<Longrightarrow> description = error_default"
proof -
  have lines: "map failure_line (textLines input) =
      map (\<lambda>line. \<lparr>originalText = line, parsedResult = JNull, validationStatus = Failure\<rparr>)
        (filter (\<lambda>line. trim line \<noteq> []) (str_split 0x0A (textContent input)))"
    by (simp add: textLines_def failure_line_def)
  show "extractAndValidateFeedback rt input =
      Inr \<lparr>rawResponse = error_prefix @ description,
           validatedResults =
             map (\<lambda>line. \<lparr>originalText = line, parsedResult = JNull,
                            validationStatus = Failure\<rparr>)
               (filter (\<lambda>line. trim line \<noteq> []) (str_split 0x0A (textContent input)))\<rparr>"
    using assms by (simp add: entry_thrown lines)
  show "error_prefix @ description \<noteq> []"
    by simp
  show "description = m" if "message = JStr m" and "m \<noteq> []"
    using assms(2) that by (simp add: error_text_def)
  show "description = error_default" if "\<not> truthy message"
    using assms(2) that by (simp add: error_text_def)
qed

lemma thrown_error_example:
  "extractAndValidateFeedback (failing (Thrown (JStr (js ''quota exceeded'')) None)) three_lines =
     Inr \<lparr>rawResponse = js ''Error en la evaluaci'' @ [0xF3] @ js ''n: quota exceeded'',
          validatedResults =
            [\<lparr>originalText = js ''Great app'', parsedResult = JNull, validationStatus = Failure\<rparr>,
             \<lparr>originalText = js ''Rude teller'', parsedResult = JNull, validationStatus = Failure\<rparr>,
             \<lparr>originalText = js ''Slow ATM'', parsedResult = JNull, validationStatus = Failure\<rparr>]\<rparr>"
  "extractAndValidateFeedback (failing (Thrown JUndefined None)) three_lines =
     Inr \<lparr>rawResponse = js ''Error en la evaluaci'' @ [0xF3]
            @ js ''n: Error desconocido del motor de IA'',
          validatedResults =
            [\<lparr>originalText = js ''Great app'', parsedResult = JNull, validationStatus = Failure\<rparr>,
             \<lparr>originalText = js ''Rude teller'', parsedResult = JNull, validationStatus = Failure\<rparr>,
             \<lparr>originalText = js ''Slow ATM'', parsedResult = JNull, validationStatus = Failure\<rparr>]\<rparr>"
  by (simp_all add: failing_def three_lines_def js_def flow_defs)

text \<open>
  Whenever the \<open>catch\<close> block cannot build its text, because the thrown value is \<open>null\<close>
  or \<open>undefined\<close> or because the conversion of a message that is not a string raises,
  the entry point raises instead of returning.
\<close>

lemma thrown_value_escapes:
  "extractFeedbackPrompt rt input = Inl error \<Longrightarrow> error_text error = Inl raised \<Longrightarrow>
   extractAndValidateFeedback rt input = Inl raised"
  by (simp add: entry_thrown)

lemma error_text_Nullish: "error_text Nullish = Inl TypeError"
  by (simp add: error_text_def)

text \<open>
  C2. The entry point is meant to return a diagnostic output with every line a Failure
  for any fault of the model call. It does not for a call that throws \<open>undefined\<close> (or
  \<open>null\<close>), on a text with three non-blank lines: the read of \<open>error.message\<close> in the
  \<open>catch\<close> block raises a TypeError, and the entry point raises it in place of
  returning an output.
\<close>

theorem C2_nullish_fault_escapes:
  "extractFeedbackPrompt (failing Nullish) three_lines = Inl Nullish
   \<and> error_text Nullish = Inl TypeError
   \<and> extractAndValidateFeedback (failing Nullish) three_lines = Inl TypeError"
  by (simp add: failing_def extractAndValidateFeedback_def extractAndValidateFeedbackFlow_def
      error_text_def)

section \<open>Status and record\<close>

text \<open>
  C3. In every result of an output the entry point returns, on the normal path and on
  the fault path: the status is Success exactly when the record is not null and
  satisfies the four field constraints; a Success record is one the schema accepts and
  returns unchanged; a Failure always carries the null record.
\<close>

theorem C3_status_iff_record:
  assumes "extractAndValidateFeedback rt input = Inr out"
  shows "\<forall>r \<in> set (validatedResults out).
     (validationStatus r = Success \<longleftrightarrow>
        parsedResult r \<noteq> JNull \<and> spec_valid (parsedResult r))
     \<and> (validationStatus r = Success \<longrightarrow>
          FeedbackSchema_parse (parsedResult r) = Some (parsedResult r))
     \<and> (validationStatus r = Failure \<longrightarrow> parsedResult r = JNull)"
proof
  fix r
  assume mem: "r \<in> set (validatedResults out)"
  have "(\<exists>line c p. FeedbackSchema_parse c = Some p
           \<and> r = \<lparr>originalText = line, parsedResult = p, validationStatus = Success\<rparr>)
        \<or> (\<exists>line. r = failure_line line)"
  proof (cases "extractFeedbackPrompt rt input")
    case (Inl error)
    with mem entry_returned [OF assms] show ?thesis
      by auto
  next
    case (Inr response)
    with mem entry_returned [OF assms] obtain line i where
      "r = validate_line FeedbackSchema_parse (jsonResults_of rt response) line i"
      by (auto dest: validatedResults_of_mem)
    then show ?thesis
      using validate_line_cases [of "jsonResults_of rt response" i line] by auto
  qed
  then show "(validationStatus r = Success \<longleftrightarrow>
        parsedResult r \<noteq> JNull \<and> spec_valid (parsedResult r))
     \<and> (validationStatus r = Success \<longrightarrow>
          FeedbackSchema_parse (parsedResult r) = Some (parsedResult r))
     \<and> (validationStatus r = Failure \<longrightarrow> parsedResult r = JNull)"
  proof (elim disjE exE conjE)
    fix line c p
    assume p: "FeedbackSchema_parse c = Some p"
      and r: "r = \<lparr>originalText = line, parsedResult = p, validationStatus = Success\<rparr>"
    have "FeedbackSchema_parse p = Some p"
      using p by (rule FeedbackSchema_parse_idem)
    moreover from this have "spec_valid p"
      using FeedbackSchema_parse_accepts [of p] by simp
    moreover have "p \<noteq> JNull"
      using p by (rule FeedbackSchema_parse_not_null)
    ultimately show ?thesis
      by (simp add: r)
  next
    fix line
    assume "r = failure_line line"
    then show ?thesis
      by (simp add: failure_line_def)
  qed
qed

text \<open>The model answers with the array of two valid records, for three non-blank lines.\<close>

theorem C3_status_iff_record_witness:
  "extractAndValidateFeedback (answering (JStr text_array)) three_lines =
     Inr \<lparr>rawResponse = text_array,
          validatedResults =
            [\<lparr>originalText = js ''Great app'', parsedResult = record_App,
                validationStatus = Success\<rparr>,
             \<lparr>originalText = js ''Rude teller'', parsedResult = record_Cajero,
                validationStatus = Success\<rparr>,
             \<lparr>originalText = js ''Slow ATM'', parsedResult = JNull,
                validationStatus = Failure\<rparr>]\<rparr>
   \<and> record_Cajero \<noteq> JNull \<and> spec_valid record_Cajero
   \<and> FeedbackSchema_parse record_Cajero = Some record_Cajero"
proof -
  let ?ok = "\<lparr>originalText = js ''Rude teller'', parsedResult = record_Cajero,
      validationStatus = Success\<rparr>"
  from C3_status_iff_record [OF results_array_three]
  have "(validationStatus ?ok = Success \<longleftrightarrow>
        parsedResult ?ok \<noteq> JNull \<and> spec_valid (parsedResult ?ok))
     \<and> (validationStatus ?ok = Success \<longrightarrow>
          FeedbackSchema_parse (parsedResult ?ok) = Some (parsedResult ?ok))"
    by simp
  then have "record_Cajero \<noteq> JNull \<and> spec_valid record_Cajero
      \<and> FeedbackSchema_parse record_Cajero = Some record_Cajero"
    by simp
  with results_array_three show ?thesis
    by (intro conjI) simp_all
qed

section \<open>The schema validator\<close>

text \<open>
  C5. \<open>FeedbackSchema.parse\<close> accepts a candidate exactly when the four field constraints
  hold: \<open>polaridad\<close> is one of the two literals, \<open>categoria\<close> is an array of the three
  literals (possibly empty), \<open>urgencia\<close> is a boolean and \<open>entidad\<close> is a string
  (possibly empty). A line whose candidate is \<open>c\<close> is a Success under the same condition.
\<close>

theorem C5_schema_accepts_iff:
  "(FeedbackSchema_parse c \<noteq> None \<longleftrightarrow>
      spec_polaridad_ok (field c (js ''polaridad''))
      \<and> spec_categoria_ok (field c (js ''categoria''))
      \<and> spec_urgencia_ok (field c (js ''urgencia''))
      \<and> spec_entidad_ok (field c (js ''entidad'')))
   \<and> (validationStatus (validate_line FeedbackSchema_parse [c] line 0) = Success \<longleftrightarrow>
        spec_valid c)"
proof -
  have "validationStatus (validate_line FeedbackSchema_parse [c] line 0) = Success \<longleftrightarrow>
      truthy c \<and> FeedbackSchema_parse c \<noteq> None"
    by (cases "FeedbackSchema_parse c")
       (simp_all add: validate_line_def array_get_def Let_def)
  then show ?thesis
    using FeedbackSchema_parse_accepts [of c] spec_valid_truthy [of c]
    by (auto simp: spec_valid_def)
qed

text \<open>
  The cases the specification names: a valid record; a record with an unknown field; a
  polarity outside the enum; \<open>urgencia\<close> as the text \<open>true\<close>; an empty entity and an
  empty category list; a polarity in the wrong case; one unknown category among known
  ones; \<open>urgencia\<close> as the number 1; a missing \<open>entidad\<close>; an array in place of an
  object.
\<close>

lemma schema_examples:
  "FeedbackSchema_parse record_App = Some record_App"
  "FeedbackSchema_parse record_App_extra = Some record_App"
  "FeedbackSchema_parse record_Indiferente = None"
  "FeedbackSchema_parse record_urgencia_text = None"
  "FeedbackSchema_parse
     (JObj [(js ''entidad'', JStr []), (js ''polaridad'', JStr (js ''Odio'')),
            (js ''categoria'', JArr []), (js ''urgencia'', JBool True)]) \<noteq> None"
  "FeedbackSchema_parse
     (JObj [(js ''entidad'', JStr (js ''App'')), (js ''polaridad'', JStr (js ''amor'')),
            (js ''categoria'', JArr []), (js ''urgencia'', JBool True)]) = None"
  "FeedbackSchema_parse
     (JObj [(js ''entidad'', JStr (js ''App'')), (js ''polaridad'', JStr (js ''Amor'')),
            (js ''categoria'', JArr [JStr (js ''App''), JStr (js ''Web'')]),
            (js ''urgencia'', JBool True)]) = None"
  "FeedbackSchema_parse
     (JObj [(js ''entidad'', JStr (js ''App'')), (js ''polaridad'', JStr (js ''Amor'')),
            (js ''categoria'', JArr []), (js ''urgencia'', JNum (Finite 1))]) = None"
  "FeedbackSchema_parse
     (JObj [(js ''polaridad'', JStr (js ''Amor'')),
            (js ''categoria'', JArr []), (js ''urgencia'', JBool False)]) = None"
  "FeedbackSchema_parse (JArr [record_App]) = None"
  by (simp_all add: example_defs schema_defs)

text \<open>
  C6. The step that validates the candidate of a line is a total function with two
  outcomes: a Success carrying the record the schema returned, which satisfies the four
  constraints, or a Failure carrying null. A candidate that breaks any of the four
  constraints, whichever it is, gives that same Failure.
\<close>

theorem C6_validation_total:
  "((\<exists>r. FeedbackSchema_parse (array_get cands i) = Some r \<and> spec_valid r
         \<and> validate_line FeedbackSchema_parse cands line i =
             \<lparr>originalText = line, parsedResult = r, validationStatus = Success\<rparr>)
     \<or> validate_line FeedbackSchema_parse cands line i =
          \<lparr>originalText = line, parsedResult = JNull, validationStatus = Failure\<rparr>)
   \<and> (\<not> spec_polaridad_ok (field (array_get cands i) (js ''polaridad''))
        \<or> \<not> spec_categoria_ok (field (array_get cands i) (js ''categoria''))
        \<or> \<not> spec_urgencia_ok (field (array_get cands i) (js ''urgencia''))
        \<or> \<not> spec_entidad_ok (field (array_get cands i) (js ''entidad''))
      \<longrightarrow> validate_line FeedbackSchema_parse cands line i =
            \<lparr>originalText = line, parsedResult = JNull, validationStatus = Failure\<rparr>)"
proof (intro conjI impI)
  show "(\<exists>r. FeedbackSchema_parse (array_get cands i) = Some r \<and> spec_valid r
         \<and> validate_line FeedbackSchema_parse cands line i =
             \<lparr>originalText = line, parsedResult = r, validationStatus = Success\<rparr>)
     \<or> validate_line FeedbackSchema_parse cands line i =
          \<lparr>originalText = line, parsedResult = JNull, validationStatus = Failure\<rparr>"
    using validate_line_cases [of cands i line] FeedbackSchema_parse_idem
      FeedbackSchema_parse_accepts
    by (fastforce simp: failure_line_def)
next
  assume "\<not> spec_polaridad_ok (field (array_get cands i) (js ''polaridad''))
        \<or> \<not> spec_categoria_ok (field (array_get cands i) (js ''categoria''))
        \<or> \<not> spec_urgencia_ok (field (array_get cands i) (js ''urgencia''))
        \<or> \<not> spec_entidad_ok (field (array_get cands i) (js ''entidad''))"
  then have "\<not> spec_valid (array_get cands i)"
    by (auto simp: spec_valid_def)
  then have "FeedbackSchema_parse (array_get cands i) = None"
    using FeedbackSchema_parse_accepts [of "array_get cands i"] by simp
  then show "validate_line FeedbackSchema_parse cands line i =
      \<lparr>originalText = line, parsedResult = JNull, validationStatus = Failure\<rparr>"
    by (simp add: validate_line_def Let_def)
qed


text \<open>
  A record that breaks only \<open>urgencia\<close> and one that breaks only \<open>polaridad\<close> give the
  same result.
\<close>

theorem C6_validation_total_witness:
  "\<not> spec_urgencia_ok (field (array_get [record_urgencia_text, record_Indiferente] 0) (js ''urgencia''))
   \<and> spec_polaridad_ok (field (array_get [record_urgencia_text, record_Indiferente] 0) (js ''polaridad''))
   \<and> spec_categoria_ok (field (array_get [record_urgencia_text, record_Indiferente] 0) (js ''categoria''))
   \<and> spec_entidad_ok (field (array_get [record_urgencia_text, record_Indiferente] 0) (js ''entidad''))
   \<and> \<not> spec_polaridad_ok (field (array_get [record_urgencia_text, record_Indiferente] 1) (js ''polaridad''))
   \<and> spec_urgencia_ok (field (array_get [record_urgencia_text, record_Indiferente] 1) (js ''urgencia''))
   \<and> spec_categoria_ok (field (array_get [record_urgencia_text, record_Indiferente] 1) (js ''categoria''))
   \<and> spec_entidad_ok (field (array_get [record_urgencia_text, record_Indiferente] 1) (js ''entidad''))
   \<and> validate_line FeedbackSchema_parse [record_urgencia_text, record_Indiferente] (js ''Rude teller'') 0 =
       \<lparr>originalText = js ''Rude teller'', parsedResult = JNull, validationStatus = Failure\<rparr>
   \<and> validate_line FeedbackSchema_parse [record_urgencia_text, record_Indiferente] (js ''Rude teller'') 1 =
       \<lparr>originalText = js ''Rude teller'', parsedResult = JNull, validationStatus = Failure\<rparr>"
proof -
  let ?cands = "[record_urgencia_text, record_Indiferente]"
  have fields:
    "\<not> spec_urgencia_ok (field (array_get ?cands 0) (js ''urgencia''))"
    "spec_polaridad_ok (field (array_get ?cands 0) (js ''polaridad''))"
    "spec_categoria_ok (field (array_get ?cands 0) (js ''categoria''))"
    "spec_entidad_ok (field (array_get ?cands 0) (js ''entidad''))"
    "\<not> spec_polaridad_ok (field (array_get ?cands 1) (js ''polaridad''))"
    "spec_urgencia_ok (field (array_get ?cands 1) (js ''urgencia''))"
    "spec_categoria_ok (field (array_get ?cands 1) (js ''categoria''))"
    "spec_entidad_ok (field (array_get ?cands 1) (js ''entidad''))"
    by (simp_all add: array_get_def field_def get_prop_def spec_urgencia_ok_def
        spec_polaridad_ok_def spec_categoria_ok_def spec_entidad_ok_def example_defs)
  from C6_validation_total [of ?cands 0 "js ''Rude teller''"] fields(1)
  have first: "validate_line FeedbackSchema_parse ?cands (js ''Rude teller'') 0 =
      \<lparr>originalText = js ''Rude teller'', parsedResult = JNull, validationStatus = Failure\<rparr>"
    by blast
  from C6_validation_total [of ?cands 1 "js ''Rude teller''"] fields(5)
  have second: "validate_line FeedbackSchema_parse ?cands (js ''Rude teller'') 1 =
      \<lparr>originalText = js ''Rude teller'', parsedResult = JNull, validationStatus = Failure\<rparr>"
    by blast
  from fields first second show ?thesis
    by (intro conjI)
qed

lemma get_prop_insert:
  "k' \<noteq> k \<Longrightarrow> get_prop (xs @ (k, v) # ys) k' = get_prop (xs @ ys) k'"
  by (simp add: get_prop_def map_add_def split: option.split)

text \<open>
  C9. An object accepted by the schema is still accepted, with the same record, after a
  property under any other key is added to it anywhere; its line is a Success, and the
  record holds the four keys of the schema and nothing else.
\<close>

theorem C9_extra_fields_ignored:
  assumes "FeedbackSchema_parse (JObj (xs @ ys)) = Some r"
    and "k \<notin> {js ''entidad'', js ''polaridad'', js ''categoria'', js ''urgencia''}"
    and "array_get cands i = JObj (xs @ (k, v) # ys)"
  shows "FeedbackSchema_parse (JObj (xs @ (k, v) # ys)) = Some r
    \<and> validate_line FeedbackSchema_parse cands line i =
        \<lparr>originalText = line, parsedResult = r, validationStatus = Success\<rparr>
    \<and> (\<exists>e p c u. r = JObj [(js ''entidad'', e), (js ''polaridad'', p),
                            (js ''categoria'', c), (js ''urgencia'', u)])"
proof -
  have same: "get_prop (xs @ (k, v) # ys) k' = get_prop (xs @ ys) k'"
    if "k' \<in> {js ''entidad'', js ''polaridad'', js ''categoria'', js ''urgencia''}" for k'
    using that assms(2) by (intro get_prop_insert) auto
  have "stripped (xs @ (k, v) # ys) = stripped (xs @ ys)"
    by (simp add: stripped_def same)
  then have "FeedbackSchema_parse (JObj (xs @ (k, v) # ys)) =
      FeedbackSchema_parse (JObj (xs @ ys))"
    by (simp add: FeedbackSchema_parse_JObj same)
  with assms(1) have parse: "FeedbackSchema_parse (JObj (xs @ (k, v) # ys)) = Some r"
    by simp
  with assms(3) have "validate_line FeedbackSchema_parse cands line i =
      \<lparr>originalText = line, parsedResult = r, validationStatus = Success\<rparr>"
    by (simp add: validate_line_def Let_def)
  moreover from assms(1) have "r = stripped (xs @ ys)"
    by (auto dest: FeedbackSchema_parse_object)
  ultimately show ?thesis
    using parse by (simp add: stripped_def)
qed

text \<open>The record for \<open>App\<close> with a property \<open>confianza\<close> added.\<close>

theorem C9_extra_fields_ignored_witness:
  "FeedbackSchema_parse record_App = Some record_App
   \<and> js ''confianza'' \<notin> {js ''entidad'', js ''polaridad'', js ''categoria'', js ''urgencia''}
   \<and> array_get [record_App_extra] 0 = record_App_extra
   \<and> FeedbackSchema_parse record_App_extra = Some record_App
   \<and> validate_line FeedbackSchema_parse [record_App_extra] (js ''Great app'') 0 =
       \<lparr>originalText = js ''Great app'', parsedResult = record_App, validationStatus = Success\<rparr>"
proof -
  let ?xs = "[(js ''entidad'', JStr (js ''App'')), (js ''polaridad'', JStr (js ''Amor''))]"
  let ?ys = "[(js ''categoria'', JArr [JStr (js ''App'')]), (js ''urgencia'', JBool False)]"
  have rec: "record_App = JObj (?xs @ ?ys)"
    and extra: "record_App_extra = JObj (?xs @ (js ''confianza'', JNum (Finite 1)) # ?ys)"
    by (simp_all add: record_App_def record_App_extra_def)
  have h1: "FeedbackSchema_parse (JObj (?xs @ ?ys)) = Some record_App"
    by (simp add: example_defs schema_defs)
  have h2: "js ''confianza'' \<notin> {js ''entidad'', js ''polaridad'', js ''categoria'', js ''urgencia''}"
    by (simp add: js_def)
  have h3: "array_get [record_App_extra] 0 = JObj (?xs @ (js ''confianza'', JNum (Finite 1)) # ?ys)"
    by (simp add: array_get_def extra)
  from C9_extra_fields_ignored [OF h1 h2 h3, of "js ''Great app''"] h1 h2 h3
  show ?thesis
    unfolding rec [symmetric] extra [symmetric] by simp
qed

section \<open>Falsy candidates\<close>

text \<open>
  C10. A candidate that is null, false, zero or the empty string makes its line a Failure
  with a null record, whatever the validator is (the validator is not consulted), and
  that is the result of a line with no candidate at all.
\<close>

theorem C10_falsy_candidate_absent:
  assumes "i < length cands"
    and "cands ! i \<in> {JNull, JBool False, JNum (Finite 0), JStr []}"
  shows "validate_line parse cands line i =
      \<lparr>originalText = line, parsedResult = JNull, validationStatus = Failure\<rparr>
    \<and> validate_line parse cands line i = validate_line parse [] line i"
proof -
  from assms have "\<not> truthy (array_get cands i)"
    by (auto simp: array_get_def)
  then show ?thesis
    by (simp add: validate_line_def Let_def array_get_def)
qed

text \<open>A null second element, under a validator that would accept everything.\<close>

theorem C10_falsy_candidate_absent_witness:
  "(1::nat) < length [record_App, JNull]
   \<and> [record_App, JNull] ! 1 \<in> {JNull, JBool False, JNum (Finite 0), JStr []}
   \<and> validate_line (\<lambda>c. Some c) [record_App, JNull] (js ''Rude teller'') 1 =
       \<lparr>originalText = js ''Rude teller'', parsedResult = JNull, validationStatus = Failure\<rparr>"
proof -
  have h1: "(1::nat) < length [record_App, JNull]"
    by simp
  have h2: "[record_App, JNull] ! 1 \<in> {JNull, JBool False, JNum (Finite 0), JStr []}"
    by simp
  from C10_falsy_candidate_absent [OF h1 h2, of "\<lambda>c. Some c" "js ''Rude teller''"] h1 h2
  show ?thesis by simp
qed

section \<open>Instruction, lines and the model call\<close>

lemma dropWhile_id: "xs = [] \<or> \<not> P (hd xs) \<Longrightarrow> dropWhile P xs = xs"
  by (cases xs) auto

lemma hd_dropWhile_not: "dropWhile P xs \<noteq> [] \<Longrightarrow> \<not> P (hd (dropWhile P xs))"
  by (rule hd_dropWhile)

lemma last_dropWhile: "dropWhile P xs \<noteq> [] \<Longrightarrow> last (dropWhile P xs) = last xs"
  by (induction xs) (auto split: if_splits)

lemma trim_trim: "trim (trim s) = trim s"
proof -
  define a where "a = dropWhile is_ws s"
  define b where "b = dropWhile is_ws (rev a)"
  have t: "trim s = rev b"
    by (simp add: trim_def a_def b_def)
  have "dropWhile is_ws (rev b) = rev b"
  proof (cases "b = []")
    case True
    then show ?thesis by simp
  next
    case False
    then have "rev a \<noteq> []"
      by (auto simp: b_def)
    then have "a \<noteq> []" by simp
    then have "\<not> is_ws (hd a)"
      unfolding a_def by (rule hd_dropWhile)
    moreover have "last b = last (rev a)"
      using False unfolding b_def by (rule last_dropWhile)
    ultimately have "\<not> is_ws (hd (rev b))"
      using False \<open>a \<noteq> []\<close> by (simp add: hd_rev last_rev)
    then show ?thesis
      by (intro dropWhile_id) simp
  qed
  moreover have "dropWhile is_ws b = b"
  proof (cases "b = []")
    case True
    then show ?thesis by simp
  next
    case False
    then have "\<not> is_ws (hd b)"
      unfolding b_def by (rule hd_dropWhile)
    then show ?thesis
      by (intro dropWhile_id) simp
  qed
  ultimately show ?thesis
    unfolding t by (simp add: trim_def)
qed

lemma entry_depends_on_prompt_value:
  assumes "JSON_parse rt' = JSON_parse rt"
    and "JSON_stringify rt' = JSON_stringify rt"
    and "extractFeedbackPrompt rt' input = extractFeedbackPrompt rt input"
  shows "extractAndValidateFeedback rt' input = extractAndValidateFeedback rt input"
proof -
  have "rawResponse_of rt' = rawResponse_of rt"
    by (rule ext) (simp add: rawResponse_of_def assms(2) split: jsval.split)
  moreover have "jsonResults_of rt' = jsonResults_of rt"
    by (rule ext) (simp add: jsonResults_of_def assms(1) split: jsval.split)
  ultimately have "rawResponse_of rt' = rawResponse_of rt"
    and "jsonResults_of rt' = jsonResults_of rt"
    by simp_all
  with assms(3) show ?thesis
    by (simp add: extractAndValidateFeedback_def extractAndValidateFeedbackFlow_def
        split: sum.split)
qed

text \<open>
  C8, as the code has it. \<open>runEvaluation\<close> depends on the instruction only through its
  trim, and calls the entry point with the trimmed instruction and the file's content
  unchanged. An output the entry point returns reports the lines of the text content
  that are not blank, in order. The entry point consults the prompt at the input it was
  given and nowhere else: an environment that agrees on that one call (and on the JSON
  built-ins) gives the same outcome. The text content reaches the prompt whole, blank
  lines included.
\<close>

theorem C8_lines_and_instruction:
  "runEvaluation rt (trim instruction) fileContent = runEvaluation rt instruction fileContent
   \<and> (runEvaluation rt instruction fileContent = Some (out, score, count) \<longrightarrow>
        (\<exists>content. fileContent = Some content
           \<and> extractAndValidateFeedback rt
                 \<lparr>systemInstruction = trim instruction, textContent = content\<rparr> = Inr out))
   \<and> (extractAndValidateFeedback rt input = Inr returned \<longrightarrow>
        map originalText (validatedResults returned) =
          filter (\<lambda>line. trim line \<noteq> []) (str_split 0x0A (textContent input)))
   \<and> (JSON_parse rt' = JSON_parse rt \<and> JSON_stringify rt' = JSON_stringify rt
        \<and> extractFeedbackPrompt rt' input = extractFeedbackPrompt rt input
      \<longrightarrow> extractAndValidateFeedback rt' input = extractAndValidateFeedback rt input)"
proof (intro conjI impI)
  show "runEvaluation rt (trim instruction) fileContent =
      runEvaluation rt instruction fileContent"
    by (simp add: runEvaluation_def trim_trim split: option.split)
next
  assume "runEvaluation rt instruction fileContent = Some (out, score, count)"
  then show "\<exists>content. fileContent = Some content
      \<and> extractAndValidateFeedback rt
            \<lparr>systemInstruction = trim instruction, textContent = content\<rparr> = Inr out"
    by (auto simp: runEvaluation_def split: option.splits if_splits sum.splits)
next
  assume "extractAndValidateFeedback rt input = Inr returned"
  from entry_returned [OF this]
  show "map originalText (validatedResults returned) =
       filter (\<lambda>line. trim line \<noteq> []) (str_split 0x0A (textContent input))"
    by (simp add: textLines_def failure_line_def comp_def split: sum.split)
next
  assume "JSON_parse rt' = JSON_parse rt \<and> JSON_stringify rt' = JSON_stringify rt
      \<and> extractFeedbackPrompt rt' input = extractFeedbackPrompt rt input"
  then show "extractAndValidateFeedback rt' input = extractAndValidateFeedback rt input"
    by (intro entry_depends_on_prompt_value) simp_all
qed

lemma entry_echoing:
  "extractAndValidateFeedback echoing input =
     Inr \<lparr>rawResponse = textContent input,
          validatedResults =
            validatedResults_of FeedbackSchema_parse (textLines input)
              (jsonResults_of echoing (JStr (textContent input)))\<rparr>"
  by (simp add: echoing_def extractAndValidateFeedback_def extractAndValidateFeedbackFlow_def
      rawResponse_of_def)

lemma two_failures:
  "validatedResults_of FeedbackSchema_parse [js ''Great app'', js ''Rude teller''] [] =
     [\<lparr>originalText = js ''Great app'', parsedResult = JNull, validationStatus = Failure\<rparr>,
      \<lparr>originalText = js ''Rude teller'', parsedResult = JNull, validationStatus = Failure\<rparr>]"
  by (simp add: validatedResults_of_def validate_line_def array_get_def enumerate_eq_zip upt_rec)

lemma textLines_two_lines:
  "textLines two_lines = [js ''Great app'', js ''Rude teller'']"
  "textLines two_lines_blank = [js ''Great app'', js ''Rude teller'']"
  by (simp_all add: two_lines_def two_lines_blank_def textLines_def trim_def is_ws_def js_def)

text \<open>
  Two inputs with the same instruction and the same non-blank lines, one with a blank
  line between them: a model that echoes the text content it receives returns different
  raw responses, so the model call is not made on the list of non-blank lines.
\<close>

theorem C8_counterexample:
  "textLines two_lines_blank = textLines two_lines
   \<and> systemInstruction two_lines_blank = systemInstruction two_lines
   \<and> extractAndValidateFeedback echoing two_lines =
       Inr \<lparr>rawResponse = js ''Great app'' @ [0x0A] @ js ''Rude teller'',
            validatedResults =
              [\<lparr>originalText = js ''Great app'', parsedResult = JNull,
                  validationStatus = Failure\<rparr>,
               \<lparr>originalText = js ''Rude teller'', parsedResult = JNull,
                  validationStatus = Failure\<rparr>]\<rparr>
   \<and> extractAndValidateFeedback echoing two_lines_blank =
       Inr \<lparr>rawResponse = js ''Great app'' @ [0x0A, 0x0A] @ js ''Rude teller'',
            validatedResults =
              [\<lparr>originalText = js ''Great app'', parsedResult = JNull,
                  validationStatus = Failure\<rparr>,
               \<lparr>originalText = js ''Rude teller'', parsedResult = JNull,
                  validationStatus = Failure\<rparr>]\<rparr>
   \<and> extractAndValidateFeedback echoing two_lines_blank \<noteq>
       extractAndValidateFeedback echoing two_lines"
proof -
  have lines: "textLines two_lines_blank = textLines two_lines"
    by (simp add: textLines_two_lines)
  have instruction: "systemInstruction two_lines_blank = systemInstruction two_lines"
    by (simp add: two_lines_blank_def two_lines_def)
  have none: "jsonResults_of echoing (JStr (textContent two_lines)) = []"
    "jsonResults_of echoing (JStr (textContent two_lines_blank)) = []"
    by (simp_all add: jsonResults_of_def echoing_def example_defs)
  have plain: "extractAndValidateFeedback echoing two_lines =
       Inr \<lparr>rawResponse = js ''Great app'' @ [0x0A] @ js ''Rude teller'',
            validatedResults =
              [\<lparr>originalText = js ''Great app'', parsedResult = JNull,
                  validationStatus = Failure\<rparr>,
               \<lparr>originalText = js ''Rude teller'', parsedResult = JNull,
                  validationStatus = Failure\<rparr>]\<rparr>"
    unfolding entry_echoing none textLines_two_lines two_failures
    by (simp add: two_lines_def)
  have blank: "extractAndValidateFeedback echoing two_lines_blank =
       Inr \<lparr>rawResponse = js ''Great app'' @ [0x0A, 0x0A] @ js ''Rude teller'',
            validatedResults =
              [\<lparr>originalText = js ''Great app'', parsedResult = JNull,
                  validationStatus = Failure\<rparr>,
               \<lparr>originalText = js ''Rude teller'', parsedResult = JNull,
                  validationStatus = Failure\<rparr>]\<rparr>"
    unfolding entry_echoing none textLines_two_lines two_failures
    by (simp add: two_lines_blank_def)
  have "extractAndValidateFeedback echoing two_lines_blank \<noteq>
      extractAndValidateFeedback echoing two_lines"
    unfolding plain blank by (simp add: js_def)
  with lines instruction plain blank show ?thesis
    by (intro conjI)
qed

text \<open>An instruction with blanks around it, and an environment that differs off the input.\<close>

lemma results_array_two:
  "extractAndValidateFeedback (answering (JStr text_array)) two_lines =
     Inr \<lparr>rawResponse = text_array,
          validatedResults =
            [\<lparr>originalText = js ''Great app'', parsedResult = record_App,
                validationStatus = Success\<rparr>,
             \<lparr>originalText = js ''Rude teller'', parsedResult = record_Cajero,
                validationStatus = Success\<rparr>]\<rparr>"
  by (simp add: example_defs flow_defs schema_defs enumerate_eq_zip upt_rec)

lemma runEvaluation_Some:
  "trim instruction \<noteq> [] \<Longrightarrow> content \<noteq> [] \<Longrightarrow>
   extractAndValidateFeedback rt
     \<lparr>systemInstruction = trim instruction, textContent = content\<rparr> = Inr out \<Longrightarrow>
   runEvaluation rt instruction (Some content) =
     Some (out,
           length (filter (\<lambda>r. validationStatus r = Success) (validatedResults out)),
           length (validatedResults out))"
  by (simp add: runEvaluation_def)

theorem C8_lines_and_instruction_witness:
  "runEvaluation (answering (JStr text_array)) (js ''  Extrae los campos '')
       (Some (js ''Great app'' @ [0x0A] @ js ''Rude teller'')) =
     Some (\<lparr>rawResponse = text_array,
            validatedResults =
              [\<lparr>originalText = js ''Great app'', parsedResult = record_App,
                  validationStatus = Success\<rparr>,
               \<lparr>originalText = js ''Rude teller'', parsedResult = record_Cajero,
                  validationStatus = Success\<rparr>]\<rparr>, 2, 2)
   \<and> extractAndValidateFeedback (answering (JStr text_array)) two_lines =
       Inr \<lparr>rawResponse = text_array,
            validatedResults =
              [\<lparr>originalText = js ''Great app'', parsedResult = record_App,
                  validationStatus = Success\<rparr>,
               \<lparr>originalText = js ''Rude teller'', parsedResult = record_Cajero,
                  validationStatus = Success\<rparr>]\<rparr>
   \<and> JSON_parse selective = JSON_parse (answering (JStr text_array))
   \<and> JSON_stringify selective = JSON_stringify (answering (JStr text_array))
   \<and> extractFeedbackPrompt selective two_lines =
       extractFeedbackPrompt (answering (JStr text_array)) two_lines
   \<and> extractAndValidateFeedback selective two_lines =
       extractAndValidateFeedback (answering (JStr text_array)) two_lines
   \<and> runEvaluation (answering (JStr text_array)) (js ''Extrae los campos'')
       (Some (js ''Great app'' @ [0x0A] @ js ''Rude teller'')) =
     Some (\<lparr>rawResponse = text_array,
            validatedResults =
              [\<lparr>originalText = js ''Great app'', parsedResult = record_App,
                  validationStatus = Success\<rparr>,
               \<lparr>originalText = js ''Rude teller'', parsedResult = record_Cajero,
                  validationStatus = Success\<rparr>]\<rparr>, 2, 2)
   \<and> filter (\<lambda>line. trim line \<noteq> []) (str_split 0x0A (textContent two_lines)) =
       [js ''Great app'', js ''Rude teller'']"
proof -
  let ?rt = "answering (JStr text_array)"
  let ?content = "js ''Great app'' @ [0x0A] @ js ''Rude teller''"
  let ?out = "\<lparr>rawResponse = text_array,
      validatedResults =
        [\<lparr>originalText = js ''Great app'', parsedResult = record_App,
            validationStatus = Success\<rparr>,
         \<lparr>originalText = js ''Rude teller'', parsedResult = record_Cajero,
            validationStatus = Success\<rparr>]\<rparr>"
  have trimmed: "trim (js ''  Extrae los campos '') = js ''Extrae los campos''"
    by (simp add: trim_def is_ws_def js_def)
  have input: "\<lparr>systemInstruction = js ''Extrae los campos'', textContent = ?content\<rparr> = two_lines"
    by (simp add: two_lines_def)
  have ret: "extractAndValidateFeedback ?rt two_lines = Inr ?out"
    by (rule results_array_two)
  have run: "runEvaluation ?rt (js ''  Extrae los campos '') (Some ?content) = Some (?out, 2, 2)"
    using runEvaluation_Some [of "js ''  Extrae los campos ''" ?content ?rt ?out,
        unfolded trimmed input, OF _ _ ret]
    by simp
  have agree: "JSON_parse selective = JSON_parse ?rt \<and> JSON_stringify selective = JSON_stringify ?rt
      \<and> extractFeedbackPrompt selective two_lines = extractFeedbackPrompt ?rt two_lines"
    by (simp add: selective_def answering_def)
  note C8 = C8_lines_and_instruction [of ?rt "js ''  Extrae los campos ''" "Some ?content"
      ?out 2 2 two_lines ?out selective]
  from C8 agree have same: "extractAndValidateFeedback selective two_lines =
      extractAndValidateFeedback ?rt two_lines"
    by blast
  from C8 run have again: "runEvaluation ?rt (js ''Extrae los campos'') (Some ?content) =
      Some (?out, 2, 2)"
    unfolding trimmed by simp
  from C8 ret have "map originalText (validatedResults ?out) =
      filter (\<lambda>line. trim line \<noteq> []) (str_split 0x0A (textContent two_lines))"
    by blast
  then have aligned: "filter (\<lambda>line. trim line \<noteq> []) (str_split 0x0A (textContent two_lines)) =
      [js ''Great app'', js ''Rude teller'']"
    by simp
  from run ret agree same again aligned show ?thesis
    by (intro conjI) simp_all
qed

section \<open>The raw response\<close>

text \<open>
  C7, as the code has it. On the normal path the entry point returns, and the raw
  response is the output itself when the output is a string (whether or not it parses);
  otherwise it is the serialisation of the output when there is one and it is not
  empty; otherwise it is the placeholder \<open>[]\<close>.
\<close>

theorem C7_rawResponse:
  assumes "extractFeedbackPrompt rt input = Inr response"
  shows "\<exists>out. extractAndValidateFeedback rt input = Inr out
    \<and> (response = JStr s \<longrightarrow> rawResponse out = s)
    \<and> (typeof response \<noteq> ''string'' \<and> JSON_stringify rt response = Some t \<and> t \<noteq> [] \<longrightarrow>
         rawResponse out = t)
    \<and> (typeof response \<noteq> ''string'' \<and> JSON_stringify rt response \<in> {None, Some []} \<longrightarrow>
         rawResponse out = js ''[]'')"
proof -
  let ?out = "\<lparr>rawResponse = rawResponse_of rt response,
      validatedResults =
        validatedResults_of FeedbackSchema_parse (textLines input)
          (jsonResults_of rt response)\<rparr>"
  have "extractAndValidateFeedback rt input = Inr ?out"
    using assms by (rule entry_resolved)
  moreover have "(response = JStr s \<longrightarrow> rawResponse ?out = s)
    \<and> (typeof response \<noteq> ''string'' \<and> JSON_stringify rt response = Some t \<and> t \<noteq> [] \<longrightarrow>
         rawResponse ?out = t)
    \<and> (typeof response \<noteq> ''string'' \<and> JSON_stringify rt response \<in> {None, Some []} \<longrightarrow>
         rawResponse ?out = js ''[]'')"
    by (cases response) (auto simp: rawResponse_of_def)
  ultimately show ?thesis
    by blast
qed

text \<open>A string that does not parse is shown verbatim; a null output is shown serialised.\<close>

theorem C7_rawResponse_witness:
  "extractFeedbackPrompt (answering (JStr text_two_lines)) two_lines = Inr (JStr text_two_lines)
   \<and> JSON_parse (answering (JStr text_two_lines)) text_two_lines = None
   \<and> extractAndValidateFeedback (answering (JStr text_two_lines)) two_lines =
       Inr \<lparr>rawResponse = text_two_lines,
            validatedResults =
              [\<lparr>originalText = js ''Great app'', parsedResult = JNull,
                  validationStatus = Failure\<rparr>,
               \<lparr>originalText = js ''Rude teller'', parsedResult = JNull,
                  validationStatus = Failure\<rparr>]\<rparr>
   \<and> extractFeedbackPrompt (answering JNull) two_lines = Inr JNull
   \<and> typeof JNull \<noteq> ''string''
   \<and> JSON_stringify (answering JNull) JNull = Some (js ''null'')
   \<and> extractAndValidateFeedback (answering JNull) two_lines =
       Inr \<lparr>rawResponse = js ''null'',
            validatedResults =
              [\<lparr>originalText = js ''Great app'', parsedResult = JNull,
                  validationStatus = Failure\<rparr>,
               \<lparr>originalText = js ''Rude teller'', parsedResult = JNull,
                  validationStatus = Failure\<rparr>]\<rparr>"
proof -
  let ?ko = "[\<lparr>originalText = js ''Great app'', parsedResult = JNull, validationStatus = Failure\<rparr>,
      \<lparr>originalText = js ''Rude teller'', parsedResult = JNull, validationStatus = Failure\<rparr>]"
  have h1: "extractFeedbackPrompt (answering (JStr text_two_lines)) two_lines =
      Inr (JStr text_two_lines)"
    and h2: "extractFeedbackPrompt (answering JNull) two_lines = Inr JNull"
    and h3: "JSON_stringify (answering JNull) JNull = Some (js ''null'')"
    by (simp_all add: answering_def example_stringify_def)
  have fails: "JSON_parse (answering (JStr text_two_lines)) text_two_lines = None"
    by (simp add: example_defs)
  have none: "jsonResults_of (answering (JStr text_two_lines)) (JStr text_two_lines) = []"
    "jsonResults_of (answering JNull) JNull = []"
    by (simp_all add: jsonResults_of_def fails)
  have results:
    "validatedResults_of FeedbackSchema_parse (textLines two_lines)
       (jsonResults_of (answering (JStr text_two_lines)) (JStr text_two_lines)) = ?ko"
    "validatedResults_of FeedbackSchema_parse (textLines two_lines)
       (jsonResults_of (answering JNull) JNull) = ?ko"
    unfolding none textLines_two_lines by (rule two_failures)+
  from C7_rawResponse [OF h1, of text_two_lines]
  obtain out where "extractAndValidateFeedback (answering (JStr text_two_lines)) two_lines = Inr out"
    and "rawResponse out = text_two_lines"
    by blast
  then have verbatim: "extractAndValidateFeedback (answering (JStr text_two_lines)) two_lines =
      Inr \<lparr>rawResponse = text_two_lines, validatedResults = ?ko\<rparr>"
    using entry_resolved [OF h1] results(1) by auto
  from C7_rawResponse [OF h2, of _ "js ''null''"] h3
  obtain out' where "extractAndValidateFeedback (answering JNull) two_lines = Inr out'"
    and "rawResponse out' = js ''null''"
    by (auto simp: js_def)
  then have serialised: "extractAndValidateFeedback (answering JNull) two_lines =
      Inr \<lparr>rawResponse = js ''null'', validatedResults = ?ko\<rparr>"
    using entry_resolved [OF h2] results(2) by auto
  from h1 h2 h3 fails verbatim serialised show ?thesis
    by (intro conjI) simp_all
qed

text \<open>
  An output of \<open>undefined\<close> has no serialisation: the raw response is then the
  placeholder \<open>[]\<close>, which the model did not produce.
\<close>

theorem C7_counterexample:
  "extractFeedbackPrompt (answering JUndefined) two_lines = Inr JUndefined
   \<and> JSON_stringify (answering JUndefined) JUndefined = None
   \<and> extractAndValidateFeedback (answering JUndefined) two_lines =
       Inr \<lparr>rawResponse = js ''[]'',
            validatedResults =
              [\<lparr>originalText = js ''Great app'', parsedResult = JNull,
                  validationStatus = Failure\<rparr>,
               \<lparr>originalText = js ''Rude teller'', parsedResult = JNull,
                  validationStatus = Failure\<rparr>]\<rparr>"
proof -
  have h: "extractFeedbackPrompt (answering JUndefined) two_lines = Inr JUndefined"
    and none: "JSON_stringify (answering JUndefined) JUndefined = None"
    by (simp_all add: answering_def example_stringify_def)
  have "jsonResults_of (answering JUndefined) JUndefined = []"
    by (simp add: jsonResults_of_def)
  then have "extractAndValidateFeedback (answering JUndefined) two_lines =
       Inr \<lparr>rawResponse = js ''[]'',
            validatedResults =
              [\<lparr>originalText = js ''Great app'', parsedResult = JNull,
                  validationStatus = Failure\<rparr>,
               \<lparr>originalText = js ''Rude teller'', parsedResult = JNull,
                  validationStatus = Failure\<rparr>]\<rparr>"
    using entry_resolved [OF h] none
    by (simp add: rawResponse_of_def textLines_two_lines two_failures)
  with h none show ?thesis
    by (intro conjI)
qed

section \<open>A response that is not a JSON array\<close>

text \<open>
  C4, as the code has it. When the output is a string that does not parse to an array,
  no line of it is parsed: a parsed object is the single candidate and anything else,
  a parse error included, gives no candidate. After a parse error the entry point
  returns every non-blank line as a Failure with a null record, and the raw response is
  the string itself.
\<close>

theorem C4_no_line_fallback:
  assumes "extractFeedbackPrompt rt input = Inr (JStr s)"
    and "\<forall>xs. JSON_parse rt s \<noteq> Some (JArr xs)"
  shows "jsonResults_of rt (JStr s) =
      (case JSON_parse rt s of Some (JObj kvs) \<Rightarrow> [JObj kvs] | _ \<Rightarrow> [])
    \<and> (JSON_parse rt s = None \<longrightarrow>
         extractAndValidateFeedback rt input =
           Inr \<lparr>rawResponse = s,
                validatedResults =
                  map (\<lambda>line. \<lparr>originalText = line, parsedResult = JNull,
                                 validationStatus = Failure\<rparr>)
                    (textLines input)\<rparr>)"
proof (intro conjI impI)
  show "jsonResults_of rt (JStr s) =
      (case JSON_parse rt s of Some (JObj kvs) \<Rightarrow> [JObj kvs] | _ \<Rightarrow> [])"
    using assms(2)
    by (auto simp: jsonResults_of_def split: option.split jsval.split)
next
  assume none: "JSON_parse rt s = None"
  have "validatedResults_of FeedbackSchema_parse lines [] =
      map (\<lambda>line. \<lparr>originalText = line, parsedResult = JNull, validationStatus = Failure\<rparr>) lines"
    for lines
    by (rule nth_equalityI)
       (simp_all add: validatedResults_of_nth validate_line_def array_get_def)
  with none show "extractAndValidateFeedback rt input =
      Inr \<lparr>rawResponse = s,
           validatedResults =
             map (\<lambda>line. \<lparr>originalText = line, parsedResult = JNull,
                            validationStatus = Failure\<rparr>)
               (textLines input)\<rparr>"
    by (simp add: entry_resolved [OF assms(1)] rawResponse_of_def jsonResults_of_def)
qed

text \<open>The response \<open>not json\<close> for two lines.\<close>

theorem C4_no_line_fallback_witness:
  "extractFeedbackPrompt (answering (JStr (js ''not json''))) two_lines = Inr (JStr (js ''not json''))
   \<and> JSON_parse (answering (JStr (js ''not json''))) (js ''not json'') = None
   \<and> jsonResults_of (answering (JStr (js ''not json''))) (JStr (js ''not json'')) = []
   \<and> extractAndValidateFeedback (answering (JStr (js ''not json''))) two_lines =
       Inr \<lparr>rawResponse = js ''not json'',
            validatedResults =
              [\<lparr>originalText = js ''Great app'', parsedResult = JNull,
                  validationStatus = Failure\<rparr>,
               \<lparr>originalText = js ''Rude teller'', parsedResult = JNull,
                  validationStatus = Failure\<rparr>]\<rparr>"
proof -
  let ?rt = "answering (JStr (js ''not json''))"
  have h1: "extractFeedbackPrompt ?rt two_lines = Inr (JStr (js ''not json''))"
    by (simp add: answering_def)
  have none: "JSON_parse ?rt (js ''not json'') = None"
    by (simp add: example_defs)
  then have h2: "\<forall>xs. JSON_parse ?rt (js ''not json'') \<noteq> Some (JArr xs)"
    by simp
  from C4_no_line_fallback [OF h1 h2] none
  have "jsonResults_of ?rt (JStr (js ''not json'')) = []"
    and "extractAndValidateFeedback ?rt two_lines =
       Inr \<lparr>rawResponse = js ''not json'',
            validatedResults =
              [\<lparr>originalText = js ''Great app'', parsedResult = JNull,
                  validationStatus = Failure\<rparr>,
               \<lparr>originalText = js ''Rude teller'', parsedResult = JNull,
                  validationStatus = Failure\<rparr>]\<rparr>"
    unfolding textLines_two_lines by simp_all
  with h1 none show ?thesis
    by (intro conjI)
qed

text \<open>
  A response of two valid records on two lines does not parse as a whole. Parsed line by
  line, as the specification words it, it would give two candidates and two Successes;
  the flow recovers no candidate and reports two Failures.
\<close>

theorem C4_counterexample:
  "JSON_parse (answering (JStr text_two_lines)) text_two_lines = None
   \<and> spec_parse_lines (JSON_parse (answering (JStr text_two_lines))) text_two_lines =
       [record_App, record_Cajero]
   \<and> jsonResults_of (answering (JStr text_two_lines)) (JStr text_two_lines) = []
   \<and> map validationStatus
       (validatedResults_of FeedbackSchema_parse (textLines two_lines)
          (spec_parse_lines (JSON_parse (answering (JStr text_two_lines))) text_two_lines)) =
       [Success, Success]
   \<and> extractAndValidateFeedback (answering (JStr text_two_lines)) two_lines =
       Inr \<lparr>rawResponse = text_two_lines,
            validatedResults =
              [\<lparr>originalText = js ''Great app'', parsedResult = JNull,
                  validationStatus = Failure\<rparr>,
               \<lparr>originalText = js ''Rude teller'', parsedResult = JNull,
                  validationStatus = Failure\<rparr>]\<rparr>"
proof -
  let ?rt = "answering (JStr text_two_lines)"
  have none: "JSON_parse ?rt text_two_lines = None"
    by (simp add: example_defs)
  have split: "str_split 0x0A text_two_lines = [text_App, text_Cajero]"
    by (simp add: text_two_lines_def text_App_def text_Cajero_def js_def)
  have each: "example_parse text_App = Some record_App"
    "example_parse text_Cajero = Some record_Cajero"
    by (simp_all add: example_parse_def text_array_def text_App_def text_Cajero_def js_def)
  have spec: "spec_parse_lines (JSON_parse ?rt) text_two_lines = [record_App, record_Cajero]"
    by (simp add: spec_parse_lines_def split each answering_def)
  have code: "jsonResults_of ?rt (JStr text_two_lines) = []"
    by (simp add: jsonResults_of_def none)
  have would: "map validationStatus
       (validatedResults_of FeedbackSchema_parse (textLines two_lines)
          (spec_parse_lines (JSON_parse ?rt) text_two_lines)) = [Success, Success]"
    unfolding spec textLines_two_lines
    by (simp add: validatedResults_of_def validate_line_def array_get_def enumerate_eq_zip
        upt_rec schema_examples(1) record_App_def record_Cajero_def schema_defs Atencion_def js_def)
  have answer: "extractFeedbackPrompt ?rt two_lines = Inr (JStr text_two_lines)"
    by (simp add: answering_def)
  have does: "extractAndValidateFeedback ?rt two_lines =
       Inr \<lparr>rawResponse = text_two_lines,
            validatedResults =
              [\<lparr>originalText = js ''Great app'', parsedResult = JNull,
                  validationStatus = Failure\<rparr>,
               \<lparr>originalText = js ''Rude teller'', parsedResult = JNull,
                  validationStatus = Failure\<rparr>]\<rparr>"
    unfolding entry_resolved [OF answer] code textLines_two_lines two_failures
    by (simp add: rawResponse_of_def)
  from none spec code would does show ?thesis
    by (intro conjI)
qed

section \<open>The earlier revision\<close>

text \<open>
  The earlier revision reports every line of the text content, blank ones included, and
  its line-by-line parse reads the lines of the text content: a response that is not
  JSON gives Successes when the input lines are themselves valid records, and two valid
  records on two lines of the response give Failures.
\<close>

lemma legacy_keeps_blank_lines:
  "map originalText (legacy_validatedResults rt raw content) = str_split 0x0A content"
  by (rule nth_equalityI)
     (simp_all add: legacy_validatedResults_def Let_def nth_enumerate_eq)

lemma legacy_fallback_reads_input:
  "map validationStatus
     (legacy_validatedResults (answering (JStr (js ''not json''))) (js ''not json'') text_two_lines) =
     [Success, Success]"
  "map validationStatus
     (legacy_validatedResults (answering (JStr text_two_lines)) text_two_lines
        (textContent two_lines)) = [Failure, Failure]"
  by (simp_all add: example_defs schema_defs legacy_validatedResults_def legacy_jsonResults_def
      legacy_validate_def array_get_def enumerate_eq_zip upt_rec)


end
